theory Spec2Isabelle
  imports Complex_Main
begin

section \<open>Data model\<close>

text \<open>
  The file under verification is \<open>src/tensor/linear-ops.cc\<close>: the expansion drivers
  \<open>PlusEqOp::Expand\<close>, \<open>PlusEqOp::ExpandCpu\<close>, \<open>AssignOp::Expand\<close> and the
  product driver \<open>AddProduct\<close>.  The tensor container, the pattern utilities and
  the op classes are declared in other files; what the drivers read from them is
  modelled here as plain data, and what they call is passed in as a parameter.
\<close>

text \<open>
  Element types.  The drivers name the float, double and int32 element types;
  \<open>kOtherDtype\<close> stands for every further enumerator of the element type
  enumeration, which the \<open>default:\<close> label of the dtype switch provides for.
\<close>

datatype DataType = kFloatDtype | kDoubleDtype | kInt32Dtype | kOtherDtype nat

text \<open>
  The device types the drivers name (\<open>kCpuDevice\<close>, and \<open>kCuda\<close> in the
  assertion of line 151).  Modelled from the spec: a device is what a tensor
  ``resides on''; the drivers read its type with \<open>DeviceType()\<close> and compare
  devices with \<open>!=\<close>.
\<close>

datatype DeviceType = kCpuDevice | kCuda

record Device =
  device_type :: DeviceType
  device_id :: int

text \<open>
  Modelled from the spec: the Pattern structure is declared outside linear-ops.cc.
  A Pattern is ``an ordered sequence of (dim, stride) pairs indexed by raxis'',
  with its Code, ``an integer digest of a Pattern''; the drivers read
  \<open>dims[1]\<close>, \<open>code\<close> and \<open>GetCode()\<close> and compare patterns with \<open>!=\<close>.
\<close>

record Pattern =
  dims :: "int list"
  strides :: "int list"
  code :: int

text \<open>
  Modelled from the spec: a Tensor is a ``logical view with an element type, a
  device, and a Pattern''; \<open>storage\<close> identifies the memory the view looks at.
  \<open>TensorImpl\<close> (the operand type of \<open>AddProduct\<close>) carries the same fields.
\<close>

record Tensor =
  pattern :: Pattern
  Dtype :: DataType
  Device :: Device
  storage :: nat

type_synonym TensorImpl = Tensor

definition DeviceType :: "Tensor \<Rightarrow> DeviceType" where
  "DeviceType t = device_type (Device t)"

definition GetCode :: "Pattern \<Rightarrow> int" where
  "GetCode p = code p"

text \<open>
  Modelled from the spec: \<open>dims[i]\<close> reads the dims array of the Pattern
  structure, which is declared outside linear-ops.cc; an axis the pattern does
  not have is taken as a degenerate one, ``dim == 1''.  The drivers read
  \<open>dims[1]\<close> only of a pattern whose code says it is a matrix.
\<close>

definition dim_at :: "Pattern \<Rightarrow> nat \<Rightarrow> int" where
  "dim_at p i = (if i < length (dims p) then dims p ! i else 1)"

text \<open>
  Modelled from the spec: \<open>WithPattern\<close> is declared outside linear-ops.cc; it
  ``wraps a tensor with an explicitly supplied reduced Pattern'', and the comment
  in \<open>ExpandCpu\<close> says the result has ``the same data as \<open>a_\<close> and \<open>b_\<close>, but
  with reduced patterns''.
\<close>

definition WithPattern :: "Tensor \<Rightarrow> Pattern \<Rightarrow> Tensor" where
  "WithPattern t p = t\<lparr>pattern := p\<rparr>"

text \<open>
  Modelled from the spec: \<open>CombineCodes\<close> is declared outside linear-ops.cc.  The
  combined code is the ``concatenation of the Codes of all operands ... first
  operand most significant''; the comments in the drivers give the layout as
  12-bit chunks, \<open>0xAAABBB\<close> and \<open>0xAAABBBCCC\<close>.
\<close>

definition CombineCodes :: "int \<Rightarrow> int \<Rightarrow> int" where
  "CombineCodes code_a code_b = code_a * 0x1000 + code_b"

definition CombineCodes3 :: "int \<Rightarrow> int \<Rightarrow> int \<Rightarrow> int" where
  "CombineCodes3 code_a code_b code_c = code_a * 0x1000000 + code_b * 0x1000 + code_c"

subsection \<open>Ops and plans\<close>

text \<open>The op class templates the drivers instantiate.\<close>

datatype OpName =
    PlusEqRefOp | PlusEqRefCpuOp | AssignRefOp
  | ScalarPlusEqScalarCpuOp | StvectorPlusEqStvectorCpuOp
  | ScalarPlusEqStvectorCpuOp | StvectorPlusEqScalarCpuOp
  | ColVectorEqMatrixCpuOp | StvectorPlusEqMatrix
  | StvectorPlusEqStvectorCudaOp | ScalarPlusEqStvectorCudaOp
  | StvectorPlusEqScalarCudaOp
  | ScalarPlusEqScalarOp | StvectorPlusEqStvectorOp | ScalarPlusEqStvectorOp
  | StvectorPlusEqScalarOp | ColVectorEqMatrixOp

text \<open>
  An op: the class template, the element types it is instantiated at, the device
  type handed to the instantiating macro (where one is handed over), and the
  constructor arguments in order.
\<close>

datatype Op = Op OpName "DataType list" "DeviceType option" "Tensor list"

text \<open>The fatal errors the drivers raise with \<open>KALDI_ERR\<close> and \<open>KALDI_ASSERT\<close>.\<close>

datatype fatal =
    UnexpectedDtype DataType
  | NotCompiledForCuda
  | CrossDeviceTypeConversion
  | CrossDevice
  | UnhandledCode int
  | AssertionFailed
  | DeviceOrDtypeMismatch

text \<open>
  Modelled from the spec: the \<open>SET_TO_TEMPLATED_...\<close> macros are defined outside
  linear-ops.cc.  An Op is ``a constructed unit of planned computation bound to
  concrete operand tensors, an element type, and a device''; each macro call
  \<open>SET_TO_TEMPLATED_...(new_op, dtype, OpClass, args...)\<close> of the CPU driver is
  taken to assign to \<open>new_op\<close> the op \<open>OpClass<dtype>(args...)\<close> it is written to
  construct.
\<close>

definition SET_TO_TEMPLATED_OP_REAL :: "DataType \<Rightarrow> OpName \<Rightarrow> Tensor list \<Rightarrow> Op" where
  "SET_TO_TEMPLATED_OP_REAL dtype name args = Op name [dtype] None args"

definition SET_TO_TEMPLATED_OP_ALL :: "DataType \<Rightarrow> OpName \<Rightarrow> Tensor list \<Rightarrow> Op" where
  "SET_TO_TEMPLATED_OP_ALL dtype name args = Op name [dtype] None args"

definition SET_TO_TEMPLATED_CPU_OP_ALL :: "DataType \<Rightarrow> OpName \<Rightarrow> Tensor list \<Rightarrow> Op" where
  "SET_TO_TEMPLATED_CPU_OP_ALL dtype name args = Op name [dtype] None args"

definition SET_TO_TEMPLATED_OP_ALLPAIRS ::
  "DataType \<Rightarrow> DataType \<Rightarrow> OpName \<Rightarrow> Tensor list \<Rightarrow> Op" where
  "SET_TO_TEMPLATED_OP_ALLPAIRS dtype1 dtype2 name args = Op name [dtype1, dtype2] None args"

text \<open>
  Modelled from the spec: the macro call with a device type,
  \<open>SET_TO_TEMPLATED_OP_REAL(new_op, dtype, device type, OpClass, args...)\<close>, of
  the assign driver; the macro is defined outside linear-ops.cc.  It constructs
  the op for the device it is given, and ``an accelerator kernel is requested but
  that backend was not compiled/linked in'' is ``fatal, configuration error'':
  for the accelerator in a build without \<open>HAVE_CUDA\<close> the call raises the error
  and constructs nothing.
\<close>

definition SET_TO_TEMPLATED_OP_REAL_DEV ::
  "bool \<Rightarrow> DataType \<Rightarrow> DeviceType \<Rightarrow> OpName \<Rightarrow> Tensor list \<Rightarrow> fatal + Op" where
  "SET_TO_TEMPLATED_OP_REAL_DEV HAVE_CUDA dtype dev name args =
     (if dev = kCuda \<and> \<not> HAVE_CUDA then Inl NotCompiledForCuda
      else Inr (Op name [dtype] (Some dev) args))"

text \<open>
  The outcome of an expansion: the op list as the call leaves it, or the fatal
  error together with the op list as it stands when the error is raised.
\<close>

type_synonym plan = "(fatal \<times> Op list) + Op list"

subsection \<open>The external interface\<close>

text \<open>
  Functions the drivers call that are defined in other files.  They are taken as
  parameters, so every theorem below holds for whatever they compute.
  \<open>NewTensor dims dtype device\<close> is the constructor call
  \<open>Tensor temp({...}, {dtype, device})\<close>, which allocates the tensor it returns.
  \<open>ExpandCuda\<close> is called by \<open>PlusEqOp::Expand\<close> and has no definition in
  linear-ops.cc.
\<close>

record externals =
  ReducePatterns :: "Pattern \<times> Pattern \<Rightarrow> Pattern \<times> Pattern"
  NormalizePatterns :: "Pattern \<times> Pattern \<Rightarrow> Pattern \<times> Pattern"
  NewTensor :: "int list \<Rightarrow> DataType \<Rightarrow> Device \<Rightarrow> Tensor"
  SqueezeR :: "Tensor \<Rightarrow> int \<Rightarrow> Tensor"
  Squeeze :: "Tensor \<Rightarrow> int \<Rightarrow> Tensor"
  Compatible :: "Tensor \<Rightarrow> Tensor \<Rightarrow> bool"
  ExpandCuda :: "Tensor \<Rightarrow> Tensor \<Rightarrow> Op list \<Rightarrow> plan"
  CheckDeviceAndDtype :: "TensorImpl \<Rightarrow> TensorImpl \<Rightarrow> TensorImpl \<Rightarrow> bool"
  PadAxes :: "Pattern \<Rightarrow> Pattern \<Rightarrow> Pattern \<Rightarrow> Pattern \<times> Pattern \<times> Pattern"
  CompressPatterns :: "Tensor \<times> Tensor \<times> Tensor \<Rightarrow> Tensor \<times> Tensor \<times> Tensor"

section \<open>The accumulate driver\<close>

text \<open>
  The operands of the op, the members \<open>a_\<close> and \<open>b_\<close> of the source, are written
  \<open>this_a\<close> and \<open>this_b\<close>.

  Lines 44--59 of \<open>ExpandCpu\<close>: local copies of the two patterns are reduced
  jointly, \<open>a\<close> and \<open>b\<close> are the operands viewed through the reduced patterns
  (the operands themselves where the reduction changed nothing), and the
  combined code is formed from the reduced patterns' codes.
\<close>

definition reduce_operands :: "externals \<Rightarrow> Tensor \<Rightarrow> Tensor \<Rightarrow> Tensor \<times> Tensor \<times> int" where
  "reduce_operands X this_a this_b =
     (case ReducePatterns X (pattern this_a, pattern this_b) of
        (a_pattern, b_pattern) \<Rightarrow>
          let a = (if a_pattern \<noteq> pattern this_a then WithPattern this_a a_pattern else this_a);
              b = (if b_pattern \<noteq> pattern this_b then WithPattern this_b b_pattern else this_b);
              combined_code = CombineCodes (GetCode a_pattern) (GetCode b_pattern)
          in (a, b, combined_code))"

text \<open>
  The \<open>switch (combined_code)\<close> of lines 83--139.  It returns the op list (the
  scalar += matrix case appends to it) and the value of \<open>new_op\<close> on leaving the
  switch.  The vector += matrix case has no \<open>break\<close>: control runs on into
  \<open>default:\<close>, which assigns \<open>new_op\<close> again.
\<close>

definition cpu_switch ::
  "externals \<Rightarrow> Tensor \<Rightarrow> Tensor \<Rightarrow> Tensor \<Rightarrow> Tensor \<Rightarrow> int \<Rightarrow> Op list \<Rightarrow> Op list \<times> Op" where
  "cpu_switch X this_a this_b a b combined_code ops =
     (if combined_code = 0x000000 then
        (ops, SET_TO_TEMPLATED_OP_REAL (Dtype a) ScalarPlusEqScalarCpuOp [a, b])
      else if combined_code = 0x101101 \<or> combined_code = 0x001001
            \<or> combined_code = 0x101001 \<or> combined_code = 0x001101 then
        (ops, SET_TO_TEMPLATED_OP_REAL (Dtype a) StvectorPlusEqStvectorCpuOp [a, b])
      else if combined_code = 0x000101 \<or> combined_code = 0x000001 then
        (ops, SET_TO_TEMPLATED_OP_REAL (Dtype a) ScalarPlusEqStvectorCpuOp [a, b])
      else if combined_code = 0x101000 \<or> combined_code = 0x001000 then
        (ops, SET_TO_TEMPLATED_OP_REAL (Dtype a) StvectorPlusEqScalarCpuOp [a, b])
      else if combined_code = 0x000103 then
        (let num_rows = dim_at (pattern b) 1;
             temp = NewTensor X [num_rows, 1] (Dtype a) (Device a);
             new_op = SET_TO_TEMPLATED_OP_REAL (Dtype a) ColVectorEqMatrixCpuOp [temp, b];
             ops = ops @ [new_op];
             temp_normalized = SqueezeR X temp 0;
             new_op = SET_TO_TEMPLATED_OP_REAL (Dtype a) ScalarPlusEqStvectorCpuOp
                        [a, temp_normalized]
         in (ops, new_op))
      else if combined_code = 0x101103 \<or> combined_code = 0x001103 then
        (let new_op = SET_TO_TEMPLATED_OP_REAL (Dtype a) StvectorPlusEqMatrix [];
             new_op = SET_TO_TEMPLATED_OP_ALL (Dtype this_a) PlusEqRefCpuOp [this_a, this_b]
         in (ops, new_op))
      else
        (ops, SET_TO_TEMPLATED_OP_ALL (Dtype this_a) PlusEqRefCpuOp [this_a, this_b]))"

text \<open>
  \<open>PlusEqOp::ExpandCpu\<close>, lines 31--199.  The function returns from reference
  mode (lines 33--40); otherwise it reduces the patterns, runs the switch on the
  combined code, which stands at function level, appends \<open>new_op\<close> and returns
  (lines 148--149).  \<open>ReferenceMode\<close> is the value of \<open>ReferenceMode()\<close>.

  The text of the function also holds two \<open>else\<close> branches whose \<open>if\<close> lines
  are not in the file: lines 140--147, a switch on the element type that raises
  ``Unexpected dtype'', and lines 150--198, an accelerator dispatch with the
  test of \<open>HAVE_CUDA\<close>.  No \<open>if\<close> leads into them, the comment of lines 79--80
  says that the element type need not be checked, and \<open>PlusEqOp::Expand\<close> enters
  the function for CPU operands only: no request runs them, and the model
  leaves them out.  The build flag \<open>HAVE_CUDA\<close> is an argument all the same; the
  function does not read it.

  The file defines \<open>PlusEqOp::ExpandCpu\<close> a second time, lines 202--221: that
  text normalizes the patterns, builds the two views and ends, appending
  nothing.  The model is the first definition, the one that dispatches.
\<close>

definition ExpandCpu ::
  "externals \<Rightarrow> bool \<Rightarrow> bool \<Rightarrow> Tensor \<Rightarrow> Tensor \<Rightarrow> Op list \<Rightarrow> plan" where
  "ExpandCpu X ReferenceMode HAVE_CUDA this_a this_b ops =
     (if ReferenceMode then
        (let new_op = SET_TO_TEMPLATED_CPU_OP_ALL (Dtype this_a) PlusEqRefOp [this_a, this_b]
         in Inr (ops @ [new_op]))
      else
        (case reduce_operands X this_a this_b of
           (a, b, combined_code) \<Rightarrow>
             (case cpu_switch X this_a this_b a b combined_code ops of
                (ops, new_op) \<Rightarrow> Inr (ops @ [new_op]))))"

text \<open>\<open>PlusEqOp::Expand\<close>, lines 26--29.\<close>

definition Expand ::
  "externals \<Rightarrow> bool \<Rightarrow> bool \<Rightarrow> Tensor \<Rightarrow> Tensor \<Rightarrow> Op list \<Rightarrow> plan" where
  "Expand X ReferenceMode HAVE_CUDA this_a this_b ops =
     (if DeviceType this_a = kCpuDevice then ExpandCpu X ReferenceMode HAVE_CUDA this_a this_b ops
      else ExpandCuda X this_a this_b ops)"



text \<open>
  Modelled from the spec: \<open>PlusEqOp::ExpandCuda\<close>, which line 28 calls for
  operands that are not on CPU, is not defined in linear-ops.cc.  The spec gives
  the accumulate driver one contract for both devices: reduce the patterns
  jointly, form the combined code and branch on it, scalar op scalar to ``a
  direct scalar kernel'', vector op vector to ``a single strided-vector
  kernel'', scalar op vector to ``a reduction kernel'', vector op scalar to ``a
  broadcast kernel'', scalar op matrix to the two ops through a column-shaped
  temporary, vector op matrix to ``a row-reduction kernel'', and ``any other
  CombinedCode'' to the ``reference/generic op for the operand's device'';
  ``accelerator execution always uses fast-path-or-fallback dispatch'', and a
  backend that ``was not built into the program'' makes expansion fail ``fatally
  with a configuration error''.  The kernels carry the names the accelerator
  text of lines 155--191 gives them, where it has one.
\<close>

definition ExpandCuda_from_spec ::
  "externals \<Rightarrow> bool \<Rightarrow> Tensor \<Rightarrow> Tensor \<Rightarrow> Op list \<Rightarrow> plan" where
  "ExpandCuda_from_spec X HAVE_CUDA this_a this_b ops =
     (if \<not> HAVE_CUDA then Inl (NotCompiledForCuda, ops)
      else
        (case reduce_operands X this_a this_b of
           (a, b, combined_code) \<Rightarrow>
             let kernel = (\<lambda>name args. Op name [Dtype a] (Some (DeviceType a)) args)
             in if combined_code = 0x000000 then
                  Inr (ops @ [kernel ScalarPlusEqScalarOp [a, b]])
                else if combined_code = 0x101101 \<or> combined_code = 0x001001
                      \<or> combined_code = 0x101001 \<or> combined_code = 0x001101 then
                  Inr (ops @ [kernel StvectorPlusEqStvectorCudaOp [a, b]])
                else if combined_code = 0x000101 \<or> combined_code = 0x000001 then
                  Inr (ops @ [kernel ScalarPlusEqStvectorCudaOp [a, b]])
                else if combined_code = 0x101000 \<or> combined_code = 0x001000 then
                  Inr (ops @ [kernel StvectorPlusEqScalarCudaOp [a, b]])
                else if combined_code = 0x000103 then
                  (let temp = NewTensor X [dim_at (pattern b) 1, 1] (Dtype a) (Device a)
                   in Inr (ops @ [kernel ColVectorEqMatrixOp [temp, b],
                                  kernel ScalarPlusEqStvectorOp [a, SqueezeR X temp 0]]))
                else if combined_code = 0x101103 \<or> combined_code = 0x001103 then
                  Inr (ops @ [kernel StvectorPlusEqMatrix [a, b]])
                else
                  Inr (ops @ [kernel PlusEqRefOp [this_a, this_b]])))"

text \<open>The external interface with \<open>ExpandCuda\<close> as the spec describes it.\<close>

definition with_spec_accelerator :: "externals \<Rightarrow> bool \<Rightarrow> externals" where
  "with_spec_accelerator X HAVE_CUDA = X\<lparr>ExpandCuda := ExpandCuda_from_spec X HAVE_CUDA\<rparr>"

section \<open>The assign driver\<close>

text \<open>
  Lines 251--272 of \<open>AssignOp::Expand\<close>: as \<open>reduce_operands\<close>, with
  \<open>NormalizePatterns\<close>.
\<close>

definition normalize_operands :: "externals \<Rightarrow> Tensor \<Rightarrow> Tensor \<Rightarrow> Tensor \<times> Tensor \<times> int" where
  "normalize_operands X this_a this_b =
     (case NormalizePatterns X (pattern this_a, pattern this_b) of
        (a_pattern, b_pattern) \<Rightarrow>
          let a = (if a_pattern \<noteq> pattern this_a then WithPattern this_a a_pattern else this_a);
              b = (if b_pattern \<noteq> pattern this_b then WithPattern this_b b_pattern else this_b);
              combined_code = CombineCodes (GetCode a_pattern) (GetCode b_pattern)
          in (a, b, combined_code))"

text \<open>
  The \<open>switch (combined_code)\<close> of lines 289--337.  Every case constructs its
  op with the macro that takes the device type, which can raise the
  configuration error.  The scalar = matrix case appends its first op and has
  no \<open>break\<close>: control runs on into \<open>default:\<close>, the error.
\<close>

definition constructed ::
  "Op list \<Rightarrow> fatal + Op \<Rightarrow> (fatal \<times> Op list) + (Op list \<times> Op)" where
  "constructed ops r = (case r of Inl failure \<Rightarrow> Inl (failure, ops) | Inr new_op \<Rightarrow> Inr (ops, new_op))"

definition assign_switch ::
  "externals \<Rightarrow> bool \<Rightarrow> Tensor \<Rightarrow> Tensor \<Rightarrow> int \<Rightarrow> Op list
     \<Rightarrow> (fatal \<times> Op list) + (Op list \<times> Op)" where
  "assign_switch X HAVE_CUDA a b combined_code ops =
     (if combined_code = 0x000000 then
        constructed ops (SET_TO_TEMPLATED_OP_REAL_DEV HAVE_CUDA (Dtype a) (DeviceType a)
                           ScalarPlusEqScalarOp [a, b])
      else if combined_code = 0x101101 \<or> combined_code = 0x001001
            \<or> combined_code = 0x101001 \<or> combined_code = 0x001101 then
        constructed ops (SET_TO_TEMPLATED_OP_REAL_DEV HAVE_CUDA (Dtype a) (DeviceType a)
                           StvectorPlusEqStvectorOp [a, b])
      else if combined_code = 0x000101 \<or> combined_code = 0x000001 then
        constructed ops (SET_TO_TEMPLATED_OP_REAL_DEV HAVE_CUDA (Dtype a) (DeviceType a)
                           ScalarPlusEqStvectorOp [a, b])
      else if combined_code = 0x101000 \<or> combined_code = 0x001000 then
        constructed ops (SET_TO_TEMPLATED_OP_REAL_DEV HAVE_CUDA (Dtype a) (DeviceType a)
                           StvectorPlusEqScalarOp [a, b])
      else if combined_code = 0x000103 then
        (let num_rows = dim_at (pattern b) 1;
             temp = NewTensor X [num_rows, 1] (Dtype a) (Device a)
         in case SET_TO_TEMPLATED_OP_REAL_DEV HAVE_CUDA (Dtype a) (DeviceType a)
                   ColVectorEqMatrixOp [temp, b] of
              Inl failure \<Rightarrow> Inl (failure, ops)
            | Inr new_op \<Rightarrow>
                (let ops = ops @ [new_op];
                     temp_normalized = Squeeze X temp 0
                 in case SET_TO_TEMPLATED_OP_REAL_DEV HAVE_CUDA (Dtype a) (DeviceType a)
                           ScalarPlusEqStvectorOp [a, temp_normalized] of
                      Inl failure \<Rightarrow> Inl (failure, ops)
                    | Inr new_op \<Rightarrow> Inl (UnhandledCode combined_code, ops)))
      else Inl (UnhandledCode combined_code, ops))"

text \<open>The case labels of that switch, lines 291--314.\<close>

definition assign_case_codes :: "int list" where
  "assign_case_codes =
     [0x000000, 0x101101, 0x001001, 0x101001, 0x001101, 0x000101, 0x000001,
      0x101000, 0x001000, 0x000103]"

text \<open>
  \<open>AssignOp::Expand\<close>, lines 223--339.  The function reads \<open>a\<close> and \<open>b\<close> in its
  first tests, before it declares them: there they are the operands \<open>a_\<close> and
  \<open>b_\<close>.  The first test (element types differ and devices differ) and the
  second (devices differ) are the nested and the plain \<open>if\<close> of lines 226--238.
\<close>

definition AssignOp_Expand ::
  "externals \<Rightarrow> bool \<Rightarrow> bool \<Rightarrow> Tensor \<Rightarrow> Tensor \<Rightarrow> Op list \<Rightarrow> plan" where
  "AssignOp_Expand X ReferenceMode HAVE_CUDA this_a this_b ops =
     (if Dtype this_a \<noteq> Dtype this_b \<and> Device this_a \<noteq> Device this_b then
        Inl (CrossDeviceTypeConversion, ops)
      else if Device this_a \<noteq> Device this_b then
        Inl (CrossDevice, ops)
      else if ReferenceMode \<and> DeviceType this_a = kCpuDevice then
        (let new_op = SET_TO_TEMPLATED_OP_ALLPAIRS (Dtype this_a) (Dtype this_b) AssignRefOp
                        [this_a, this_b]
         in Inr (ops @ [new_op]))
      else
        (case normalize_operands X this_a this_b of
           (a, b, combined_code) \<Rightarrow>
             if \<not> Compatible X this_a this_b then Inl (AssertionFailed, ops)
             else
               (case assign_switch X HAVE_CUDA a b combined_code ops of
                  Inl failure \<Rightarrow> Inl failure
                | Inr (ops, new_op) \<Rightarrow> Inr (ops @ [new_op]))))"

section \<open>The product driver\<close>

text \<open>The kernels \<open>AddProduct\<close> hands a request to.\<close>

datatype kernel =
    AddProductScalar3 | AddProductVecScalarVec | AddProductVec3
  | AddProductMatVecVec | AddProductTmatVecVec | AddProductVec2Mat

text \<open>
  What a call of \<open>AddProduct\<close> leaves behind: the three operands of the call as
  they stand when it returns, and the kernel it invoked, with its arguments.
  The operands are \<open>const TensorImpl &a\<close>, \<open>&b\<close> and \<open>const TensorImpl *c\<close>.
\<close>

record product_state =
  op_a :: TensorImpl
  op_b :: TensorImpl
  op_c :: TensorImpl
  invoked :: "(kernel \<times> TensorImpl \<times> TensorImpl \<times> TensorImpl) option"

definition invoke :: "kernel \<Rightarrow> TensorImpl \<Rightarrow> TensorImpl \<Rightarrow> TensorImpl \<Rightarrow> product_state" where
  "invoke k a b c = \<lparr>op_a = a, op_b = b, op_c = c, invoked = Some (k, a, b, c)\<rparr>"

text \<open>
  Lines 353--414 of \<open>AddProduct\<close>, what follows the swap test.
  \<open>CheckDeviceAndDtype\<close> is defined in another file; modelled from the spec:
  ``device and element-type compatibility across all three operands is checked
  (fatal if violated)''.  After the switch the function copies the operands into
  \<open>a_temp\<close>, \<open>b_temp\<close>, \<open>c_temp\<close>, calls \<open>PadAxes\<close> with the addresses of the
  operands' patterns and \<open>CompressPatterns\<close> with the addresses of the copies,
  and ends.  The operands are const, so \<open>PadAxes\<close> cannot write to them; what the
  two calls compute goes nowhere.
\<close>

definition AddProduct_dispatch ::
  "externals \<Rightarrow> TensorImpl \<Rightarrow> TensorImpl \<Rightarrow> TensorImpl \<Rightarrow> fatal + product_state" where
  "AddProduct_dispatch X a b c =
     (if \<not> CheckDeviceAndDtype X a b c then Inl DeviceOrDtypeMismatch
      else
        let combined_code = CombineCodes3 (code (pattern a)) (code (pattern b)) (code (pattern c))
        in if combined_code = 0x000000000 then Inr (invoke AddProductScalar3 a b c)
           else if combined_code = 0x101000101 then Inr (invoke AddProductVecScalarVec a b c)
           else if combined_code = 0x101101101 then Inr (invoke AddProductVec3 a b c)
           else if combined_code = 0x103101202 then Inr (invoke AddProductMatVecVec a b c)
           else if combined_code = 0x203101202 then Inr (invoke AddProductTmatVecVec a b c)
           else if combined_code = 0x202101103 then Inr (invoke AddProductVec2Mat a b c)
           else
             (let a_temp = a; b_temp = b; c_temp = c
              in case PadAxes X (pattern a) (pattern b) (pattern c) of
                   (a_padded, b_padded, c_padded) \<Rightarrow>
                     (case CompressPatterns X (a_temp, b_temp, c_temp) of
                        (a_temp, b_temp, c_temp) \<Rightarrow>
                          Inr \<lparr>op_a = a, op_b = b, op_c = c, invoked = None\<rparr>)))"

text \<open>
  The recursive call of line 349 passes \<open>b\<close> for \<open>a\<close> and \<open>a\<close> for \<open>b\<close>; what it
  leaves of its first operand is what the caller sees of its second.
\<close>

definition swap_operands :: "product_state \<Rightarrow> product_state" where
  "swap_operands s = s\<lparr>op_a := op_b s, op_b := op_a s\<rparr>"

text \<open>\<open>AddProduct\<close>, lines 343--414.\<close>

function AddProduct ::
  "externals \<Rightarrow> real \<Rightarrow> real \<Rightarrow> TensorImpl \<Rightarrow> TensorImpl \<Rightarrow> TensorImpl \<Rightarrow> fatal + product_state" where
  "AddProduct X alpha beta a b c =
     (if code (pattern a) < code (pattern b) then
        map_sum id swap_operands (AddProduct X alpha beta b a c)
      else AddProduct_dispatch X a b c)"
  by pat_completeness auto
termination
  by (relation "measure (\<lambda>(X, alpha, beta, a, b, c).
        if code (pattern a) < code (pattern b) then 1 else 0)") auto

text \<open>The case labels of the switch in \<open>AddProduct\<close>, lines 367--392.\<close>

definition product_case_codes :: "int list" where
  "product_case_codes =
     [0x000000000, 0x101000101, 0x101101101, 0x103101202, 0x203101202, 0x202101103]"

section \<open>Example operands\<close>

definition cpu :: Device where
  "cpu = \<lparr>device_type = kCpuDevice, device_id = 0\<rparr>"

definition gpu :: Device where
  "gpu = \<lparr>device_type = kCuda, device_id = 0\<rparr>"

text \<open>
  Reduced patterns with the codes the comments of the drivers give them: \<open>()\<close> is
  \<open>0x000\<close>, a contiguous vector \<open>(X)\<close> is \<open>0x101\<close>, a row-major matrix \<open>(xX)\<close> is
  \<open>0x103\<close>.  Lists are indexed by raxis, innermost axis first.
\<close>

definition scalar_of :: "DataType \<Rightarrow> Device \<Rightarrow> nat \<Rightarrow> Tensor" where
  "scalar_of dtype dev mem =
     \<lparr>pattern = \<lparr>dims = [], strides = [], code = 0x000\<rparr>,
      Dtype = dtype, Device = dev, storage = mem\<rparr>"

definition vector_of :: "int \<Rightarrow> DataType \<Rightarrow> Device \<Rightarrow> nat \<Rightarrow> Tensor" where
  "vector_of n dtype dev mem =
     \<lparr>pattern = \<lparr>dims = [n], strides = [1], code = 0x101\<rparr>,
      Dtype = dtype, Device = dev, storage = mem\<rparr>"

definition matrix_of :: "int \<Rightarrow> int \<Rightarrow> DataType \<Rightarrow> Device \<Rightarrow> nat \<Rightarrow> Tensor" where
  "matrix_of num_rows num_cols dtype dev mem =
     \<lparr>pattern = \<lparr>dims = [num_cols, num_rows], strides = [1, num_cols], code = 0x103\<rparr>,
      Dtype = dtype, Device = dev, storage = mem\<rparr>"

text \<open>
  A matrix whose rows lie \<open>row_stride\<close> elements apart, more than the row is
  long: the two axes cannot be merged into one, so its reduced pattern is the
  matrix pattern \<open>(xX)\<close> itself.
\<close>

definition strided_matrix_of ::
  "int \<Rightarrow> int \<Rightarrow> int \<Rightarrow> DataType \<Rightarrow> Device \<Rightarrow> nat \<Rightarrow> Tensor" where
  "strided_matrix_of num_rows num_cols row_stride dtype dev mem =
     \<lparr>pattern = \<lparr>dims = [num_cols, num_rows], strides = [1, row_stride], code = 0x103\<rparr>,
      Dtype = dtype, Device = dev, storage = mem\<rparr>"

text \<open>
  Modelled from the spec: \<open>PadAxes\<close> is defined outside linear-ops.cc; the generic
  path of the product driver ``pads operand patterns to matching rank''.  The
  padding axes are degenerate (dim 1, stride 0) and outermost.
\<close>

definition pad_pattern :: "nat \<Rightarrow> Pattern \<Rightarrow> Pattern" where
  "pad_pattern n p =
     p\<lparr>dims := dims p @ replicate (n - length (dims p)) 1,
       strides := strides p @ replicate (n - length (strides p)) 0\<rparr>"

definition PadAxes_to_rank :: "Pattern \<Rightarrow> Pattern \<Rightarrow> Pattern \<Rightarrow> Pattern \<times> Pattern \<times> Pattern" where
  "PadAxes_to_rank pa pb pc =
     (let n = max (length (dims pa)) (max (length (dims pb)) (length (dims pc)))
      in (pad_pattern n pa, pad_pattern n pb, pad_pattern n pc))"

text \<open>
  An instance of the external interface on which the drivers can be run: the
  operands' patterns are reduced already; a new tensor is memory number 0
  holding one contiguous column, the one shape the drivers construct (code
  \<open>0x202\<close>, the \<open>(X,1)\<close> of the comments in \<open>AddProduct\<close>); squeezing removes
  the axis; the compatibility checks compare element type and device; and
  \<open>ExpandCuda\<close> appends nothing.
\<close>

definition squeeze_raxis :: "Tensor \<Rightarrow> int \<Rightarrow> Tensor" where
  "squeeze_raxis t raxis =
     t\<lparr>pattern := (pattern t)\<lparr>dims := take (nat raxis) (dims (pattern t))
                                    @ drop (Suc (nat raxis)) (dims (pattern t)),
                               strides := take (nat raxis) (strides (pattern t))
                                    @ drop (Suc (nat raxis)) (strides (pattern t))\<rparr>\<rparr>"

definition new_tensor :: "int list \<Rightarrow> DataType \<Rightarrow> Device \<Rightarrow> Tensor" where
  "new_tensor ds dtype dev =
     \<lparr>pattern = \<lparr>dims = rev ds, strides = map (\<lambda>d. if d = 1 then 0 else 1) (rev ds), code = 0x202\<rparr>,
      Dtype = dtype, Device = dev, storage = 0\<rparr>"

definition plain_externals :: externals where
  "plain_externals =
     \<lparr>ReducePatterns = (\<lambda>ps. ps),
      NormalizePatterns = (\<lambda>ps. ps),
      NewTensor = new_tensor,
      SqueezeR = squeeze_raxis,
      Squeeze = (\<lambda>t axis. squeeze_raxis t (int (length (dims (pattern t))) - 1 - axis)),
      Compatible = (\<lambda>a b. Dtype a = Dtype b \<and> Device a = Device b),
      ExpandCuda = (\<lambda>a b ops. Inr ops),
      CheckDeviceAndDtype = (\<lambda>a b c. Dtype a = Dtype b \<and> Dtype b = Dtype c
                                  \<and> Device a = Device b \<and> Device b = Device c),
      PadAxes = PadAxes_to_rank,
      CompressPatterns = (\<lambda>ts. ts)\<rparr>"

section \<open>Properties of the view construction\<close>

lemma WithPattern_fields:
  "Dtype (WithPattern t p) = Dtype t" "Device (WithPattern t p) = Device t"
  "storage (WithPattern t p) = storage t" "pattern (WithPattern t p) = p"
  by (simp_all add: WithPattern_def)

lemma reduce_operands_fields:
  assumes "reduce_operands X this_a this_b = (a, b, c)"
  shows "Dtype a = Dtype this_a" and "Device a = Device this_a" and "DeviceType a = DeviceType this_a"
    and "Dtype b = Dtype this_b" and "Device b = Device this_b"
  using assms
  by (auto simp: reduce_operands_def DeviceType_def WithPattern_def Let_def
      split: prod.splits if_splits)


lemma normalize_operands_fields:
  assumes "normalize_operands X this_a this_b = (a, b, c)"
  shows "Dtype a = Dtype this_a" and "Device a = Device this_a" and "DeviceType a = DeviceType this_a"
  using assms
  by (auto simp: normalize_operands_def DeviceType_def WithPattern_def Let_def
      split: prod.splits if_splits)


lemma Expand_on_cpu:
  "DeviceType this_a = kCpuDevice \<Longrightarrow>
     Expand X ReferenceMode HAVE_CUDA this_a this_b ops =
       ExpandCpu X ReferenceMode HAVE_CUDA this_a this_b ops"
  by (simp add: Expand_def)

lemma Expand_on_spec_accelerator:
  "DeviceType this_a \<noteq> kCpuDevice \<Longrightarrow>
     Expand (with_spec_accelerator X HAVE_CUDA) ReferenceMode HAVE_CUDA' this_a this_b ops =
       ExpandCuda_from_spec X HAVE_CUDA this_a this_b ops"
  by (simp add: Expand_def with_spec_accelerator_def)

lemmas macro_defs = SET_TO_TEMPLATED_OP_REAL_def SET_TO_TEMPLATED_OP_ALL_def
  SET_TO_TEMPLATED_CPU_OP_ALL_def SET_TO_TEMPLATED_OP_ALLPAIRS_def




section \<open>Facts about the example operands\<close>

lemma example_fields:
  "Dtype (scalar_of dtype dev mem) = dtype" "Device (scalar_of dtype dev mem) = dev"
  "Dtype (vector_of n dtype dev mem) = dtype" "Device (vector_of n dtype dev mem) = dev"
  "Dtype (matrix_of r c dtype dev mem) = dtype" "Device (matrix_of r c dtype dev mem) = dev"
  "DeviceType (scalar_of dtype dev mem) = device_type dev"
  "DeviceType (vector_of n dtype dev mem) = device_type dev"
  "DeviceType (matrix_of r c dtype dev mem) = device_type dev"
  "code (pattern (scalar_of dtype dev mem)) = 0x000"
  "code (pattern (vector_of n dtype dev mem)) = 0x101"
  "code (pattern (matrix_of r c dtype dev mem)) = 0x103"
  "device_type cpu = kCpuDevice" "device_type gpu = kCuda" "cpu \<noteq> gpu"
  by (simp_all add: scalar_of_def vector_of_def matrix_of_def DeviceType_def cpu_def gpu_def)

lemma strided_matrix_fields:
  "Dtype (strided_matrix_of r c st dtype dev mem) = dtype"
  "Device (strided_matrix_of r c st dtype dev mem) = dev"
  "DeviceType (strided_matrix_of r c st dtype dev mem) = device_type dev"
  "code (pattern (strided_matrix_of r c st dtype dev mem)) = 0x103"
  "dim_at (pattern (strided_matrix_of r c st dtype dev mem)) (Suc 0) = r"
  by (simp_all add: strided_matrix_of_def DeviceType_def dim_at_def)

lemma plain_externals_fields:
  "NewTensor plain_externals = new_tensor" "SqueezeR plain_externals = squeeze_raxis"
  by (simp_all add: plain_externals_def)

lemma reduce_operands_plain:
  "reduce_operands plain_externals s t =
     (s, t, CombineCodes (code (pattern s)) (code (pattern t)))"
  by (simp add: reduce_operands_def plain_externals_def GetCode_def)

lemma normalize_operands_plain:
  "normalize_operands plain_externals s t =
     (s, t, CombineCodes (code (pattern s)) (code (pattern t)))"
  by (simp add: normalize_operands_def plain_externals_def GetCode_def)

section \<open>The accumulate driver: scalar += matrix\<close>

text \<open>
  C1.  For every accumulate request \<open>a += b\<close> on CPU, not in reference mode,
  whose reduced combined code is scalar += matrix (\<open>0x000103\<close>), \<open>Expand\<close>
  appends exactly two ops to the plan, in this order: first
  \<open>ColVectorEqMatrixCpuOp\<close>, which reduces the matrix into a freshly allocated
  temporary, the tensor that the constructor call of line 112 returns for the
  shape \<open>{num_rows, 1}\<close> and the target's element type and device; then
  \<open>ScalarPlusEqStvectorCpuOp\<close>, which reduces the squeezed view of that
  temporary (\<open>SqueezeR(temp, 0)\<close>) into the scalar target.  No other op is
  appended.  Here \<open>num_rows\<close> is \<open>dims[1]\<close> of the reduced matrix pattern.
\<close>

theorem C1_scalar_plus_matrix_two_ops:
  assumes "DeviceType this_a = kCpuDevice"
    and "reduce_operands X this_a this_b = (a, b, 0x000103)"
  shows "Expand X False HAVE_CUDA this_a this_b ops =
     (let temp = NewTensor X [dim_at (pattern b) 1, 1] (Dtype this_a) (Device this_a)
      in Inr (ops @ [Op ColVectorEqMatrixCpuOp [Dtype this_a] None [temp, b],
                     Op ScalarPlusEqStvectorCpuOp [Dtype this_a] None
                        [a, SqueezeR X temp 0]]))"
proof -
  note f = reduce_operands_fields [OF assms(2)]
  have sw: "cpu_switch X this_a this_b a b 0x000103 ops =
      (let temp = NewTensor X [dim_at (pattern b) 1, 1] (Dtype this_a) (Device this_a)
       in (ops @ [Op ColVectorEqMatrixCpuOp [Dtype this_a] None [temp, b]],
           Op ScalarPlusEqStvectorCpuOp [Dtype this_a] None [a, SqueezeR X temp 0]))"
    by (simp add: cpu_switch_def macro_defs Let_def f)
  show ?thesis
    using assms(1)
    by (simp add: Expand_on_cpu ExpandCpu_def assms(2) sw Let_def)
qed

text \<open>
  The theorem at a scalar and a matrix of 3 rows and 4 columns whose rows lie 8
  elements apart, for the element types float and int32, on CPU: the temporary
  has shape \<open>{3, 1}\<close>.
\<close>

theorem C1_scalar_plus_matrix_witness:
  "DeviceType (scalar_of kFloatDtype cpu 5) = kCpuDevice
   \<and> reduce_operands plain_externals (scalar_of kFloatDtype cpu 5)
        (strided_matrix_of 3 4 8 kFloatDtype cpu 6)
       = (scalar_of kFloatDtype cpu 5, strided_matrix_of 3 4 8 kFloatDtype cpu 6, 0x000103)
   \<and> Expand plain_externals False False (scalar_of kFloatDtype cpu 5)
        (strided_matrix_of 3 4 8 kFloatDtype cpu 6) []
       = Inr [Op ColVectorEqMatrixCpuOp [kFloatDtype] None
                [new_tensor [3, 1] kFloatDtype cpu, strided_matrix_of 3 4 8 kFloatDtype cpu 6],
              Op ScalarPlusEqStvectorCpuOp [kFloatDtype] None
                [scalar_of kFloatDtype cpu 5,
                 squeeze_raxis (new_tensor [3, 1] kFloatDtype cpu) 0]]
   \<and> Expand plain_externals False False (scalar_of kInt32Dtype cpu 5)
        (strided_matrix_of 3 4 8 kInt32Dtype cpu 6) []
       = Inr [Op ColVectorEqMatrixCpuOp [kInt32Dtype] None
                [new_tensor [3, 1] kInt32Dtype cpu, strided_matrix_of 3 4 8 kInt32Dtype cpu 6],
              Op ScalarPlusEqStvectorCpuOp [kInt32Dtype] None
                [scalar_of kInt32Dtype cpu 5,
                 squeeze_raxis (new_tensor [3, 1] kInt32Dtype cpu) 0]]"
proof -
  have dev: "DeviceType (scalar_of dtype cpu 5) = kCpuDevice" for dtype
    by (simp add: example_fields)
  have red: "reduce_operands plain_externals (scalar_of dtype cpu 5)
               (strided_matrix_of 3 4 8 dtype cpu 6)
             = (scalar_of dtype cpu 5, strided_matrix_of 3 4 8 dtype cpu 6, 0x000103)" for dtype
    by (simp add: reduce_operands_plain CombineCodes_def example_fields strided_matrix_fields)
  show ?thesis
    using C1_scalar_plus_matrix_two_ops [OF dev [of kFloatDtype] red [of kFloatDtype], of False "[]"]
          C1_scalar_plus_matrix_two_ops [OF dev [of kInt32Dtype] red [of kInt32Dtype], of False "[]"]
          dev [of kFloatDtype] red [of kFloatDtype]
    by (simp add: Let_def example_fields strided_matrix_fields plain_externals_fields)
qed

section \<open>The product driver: canonical operand order\<close>

text \<open>
  The recursion of \<open>AddProduct\<close> is accepted with a termination proof, so the
  function is total: every call returns.
\<close>

text \<open>
  C2.  For every pair of operands \<open>a\<close>, \<open>b\<close> passed to \<open>AddProduct\<close>: if the code
  of \<open>a\<close>'s pattern is less than the code of \<open>b\<close>'s, the operands are swapped and
  \<open>AddProduct\<close> recurses once, and the recursive call does not swap again: it is
  the non-recursive remainder of the function on \<open>b\<close>, \<open>a\<close>.  If \<open>a\<close>'s code is
  greater than or equal to \<open>b\<close>'s, no swap occurs.  So \<open>AddProduct\<close> terminates
  with at most one swap.
\<close>

theorem C2_AddProduct_swaps_at_most_once:
  "(code (pattern a) < code (pattern b) \<longrightarrow>
      AddProduct X alpha beta b a c = AddProduct_dispatch X b a c
      \<and> AddProduct X alpha beta a b c = map_sum id swap_operands (AddProduct_dispatch X b a c))
   \<and> (\<not> code (pattern a) < code (pattern b) \<longrightarrow>
      AddProduct X alpha beta a b c = AddProduct_dispatch X a b c)"
proof (intro conjI impI)
  assume lt: "code (pattern a) < code (pattern b)"
  then have ge: "\<not> code (pattern b) < code (pattern a)" by simp
  show "AddProduct X alpha beta b a c = AddProduct_dispatch X b a c"
    using ge by (subst AddProduct.simps) simp
  then show "AddProduct X alpha beta a b c
      = map_sum id swap_operands (AddProduct_dispatch X b a c)"
    using lt by (subst AddProduct.simps) simp
next
  assume "\<not> code (pattern a) < code (pattern b)"
  then show "AddProduct X alpha beta a b c = AddProduct_dispatch X a b c"
    by (subst AddProduct.simps) simp
qed

text \<open>
  The theorem at scalar times vector into vector, in both orders: the call with
  the scalar first swaps once, and both calls invoke the vector-scalar kernel
  on the same arguments.
\<close>

theorem C2_AddProduct_swap_witness:
  "code (pattern (scalar_of kFloatDtype cpu 5)) < code (pattern (vector_of 4 kFloatDtype cpu 6))
   \<and> AddProduct plain_externals 1 0 (scalar_of kFloatDtype cpu 5) (vector_of 4 kFloatDtype cpu 6)
        (vector_of 4 kFloatDtype cpu 7)
      = Inr \<lparr>op_a = scalar_of kFloatDtype cpu 5, op_b = vector_of 4 kFloatDtype cpu 6,
              op_c = vector_of 4 kFloatDtype cpu 7,
              invoked = Some (AddProductVecScalarVec, vector_of 4 kFloatDtype cpu 6,
                              scalar_of kFloatDtype cpu 5, vector_of 4 kFloatDtype cpu 7)\<rparr>
   \<and> \<not> code (pattern (vector_of 4 kFloatDtype cpu 6)) < code (pattern (scalar_of kFloatDtype cpu 5))
   \<and> AddProduct plain_externals 1 0 (vector_of 4 kFloatDtype cpu 6) (scalar_of kFloatDtype cpu 5)
        (vector_of 4 kFloatDtype cpu 7)
      = Inr \<lparr>op_a = vector_of 4 kFloatDtype cpu 6, op_b = scalar_of kFloatDtype cpu 5,
              op_c = vector_of 4 kFloatDtype cpu 7,
              invoked = Some (AddProductVecScalarVec, vector_of 4 kFloatDtype cpu 6,
                              scalar_of kFloatDtype cpu 5, vector_of 4 kFloatDtype cpu 7)\<rparr>"
proof -
  have lt: "code (pattern (scalar_of kFloatDtype cpu 5))
            < code (pattern (vector_of 4 kFloatDtype cpu 6))"
    by (simp add: example_fields)
  have d: "AddProduct_dispatch plain_externals (vector_of 4 kFloatDtype cpu 6)
             (scalar_of kFloatDtype cpu 5) (vector_of 4 kFloatDtype cpu 7)
           = Inr (invoke AddProductVecScalarVec (vector_of 4 kFloatDtype cpu 6)
                    (scalar_of kFloatDtype cpu 5) (vector_of 4 kFloatDtype cpu 7))"
    by (simp add: AddProduct_dispatch_def CombineCodes3_def plain_externals_def
        scalar_of_def vector_of_def)
  show ?thesis
    using C2_AddProduct_swaps_at_most_once
            [of "scalar_of kFloatDtype cpu 5" "vector_of 4 kFloatDtype cpu 6"
                plain_externals 1 0 "vector_of 4 kFloatDtype cpu 7"]
          C2_AddProduct_swaps_at_most_once
            [of "vector_of 4 kFloatDtype cpu 6" "scalar_of kFloatDtype cpu 5"
                plain_externals 1 0 "vector_of 4 kFloatDtype cpu 7"]
          lt
    by (simp add: d invoke_def swap_operands_def)
qed

section \<open>The accumulate driver: the fallback\<close>




section \<open>The accumulate driver: vector += matrix\<close>

text \<open>
  Whatever the external functions compute, a request on CPU with one of the two
  vector += matrix codes gets the generic reference op.
\<close>

lemma vector_plus_matrix_falls_through:
  assumes "DeviceType this_a = kCpuDevice"
    and "reduce_operands X this_a this_b = (a, b, combined_code)"
    and "combined_code = 0x101103 \<or> combined_code = 0x001103"
  shows "Expand X False HAVE_CUDA this_a this_b ops =
           Inr (ops @ [Op PlusEqRefCpuOp [Dtype this_a] None [this_a, this_b]])"
proof -
  have sw: "cpu_switch X this_a this_b a b combined_code ops =
              (ops, Op PlusEqRefCpuOp [Dtype this_a] None [this_a, this_b])"
    using assms(3) by (auto simp: cpu_switch_def macro_defs)
  show ?thesis
    using assms(1) by (simp add: Expand_on_cpu ExpandCpu_def assms(2) sw)
qed

text \<open>
  C4 says that vector += matrix (codes \<open>0x101103\<close>, \<open>0x001103\<close>) on CPU is
  dispatched to a single row-reduction op.  The code does not do that: the case
  constructs \<open>StvectorPlusEqMatrix\<close> without operands and has no \<open>break\<close>, so
  \<open>default:\<close> overwrites it and the one op appended is the generic reference op.
  Here for a float vector of 4 elements and a float matrix of 3 rows and 4
  columns.
\<close>

theorem C4_vector_plus_matrix_gets_reference_op:
  "reduce_operands plain_externals (vector_of 4 kFloatDtype cpu 5) (matrix_of 3 4 kFloatDtype cpu 6)
     = (vector_of 4 kFloatDtype cpu 5, matrix_of 3 4 kFloatDtype cpu 6, 0x101103)
   \<and> Expand plain_externals False False (vector_of 4 kFloatDtype cpu 5)
        (matrix_of 3 4 kFloatDtype cpu 6) []
     = Inr [Op PlusEqRefCpuOp [kFloatDtype] None
              [vector_of 4 kFloatDtype cpu 5, matrix_of 3 4 kFloatDtype cpu 6]]"
  by (simp add: Expand_def ExpandCpu_def reduce_operands_plain CombineCodes_def cpu_switch_def
      macro_defs example_fields)

section \<open>The assign driver: operands on different devices\<close>

text \<open>
  C5.  For every assign request \<open>a = b\<close> whose operands are on different devices,
  \<open>AssignOp::Expand\<close> fails fatally, whether or not the element types differ
  too (the error is the cross-device-with-conversion one when they do, the
  cross-device one when they do not), before any op is constructed or appended:
  the op list is as the call found it.
\<close>

theorem C5_cross_device_assign_fails:
  assumes "Device this_a \<noteq> Device this_b"
  shows "AssignOp_Expand X ReferenceMode HAVE_CUDA this_a this_b ops =
           Inl (if Dtype this_a \<noteq> Dtype this_b then CrossDeviceTypeConversion else CrossDevice,
                ops)"
  using assms by (simp add: AssignOp_Expand_def)

text \<open>
  The theorem at a vector on the accelerator assigned from a vector on CPU, of
  the same element type and of another one.
\<close>

theorem C5_cross_device_assign_witness:
  "Device (vector_of 5 kFloatDtype gpu 5) \<noteq> Device (vector_of 5 kFloatDtype cpu 6)
   \<and> AssignOp_Expand plain_externals False True (vector_of 5 kFloatDtype gpu 5)
        (vector_of 5 kFloatDtype cpu 6) []
       = Inl (CrossDevice, [])
   \<and> Device (vector_of 5 kFloatDtype gpu 5) \<noteq> Device (vector_of 5 kDoubleDtype cpu 6)
   \<and> AssignOp_Expand plain_externals True True (vector_of 5 kFloatDtype gpu 5)
        (vector_of 5 kDoubleDtype cpu 6) []
       = Inl (CrossDeviceTypeConversion, [])"
proof -
  have d1: "Device (vector_of 5 kFloatDtype gpu 5) \<noteq> Device (vector_of 5 kFloatDtype cpu 6)"
    by (simp add: vector_of_def gpu_def cpu_def)
  have d2: "Device (vector_of 5 kFloatDtype gpu 5) \<noteq> Device (vector_of 5 kDoubleDtype cpu 6)"
    by (simp add: vector_of_def gpu_def cpu_def)
  show ?thesis
    using C5_cross_device_assign_fails [OF d1, of plain_externals False True "[]"]
          C5_cross_device_assign_fails [OF d2, of plain_externals True True "[]"] d1 d2
    by (simp add: vector_of_def)
qed

section \<open>Reference mode\<close>

text \<open>
  C6.  For every accumulate request on CPU with reference mode enabled,
  expansion appends exactly one op, the generic reference op \<open>PlusEqRefOp\<close> on
  the operands as given, whatever their patterns and whatever pattern reduction
  and the fast-path dispatch would compute (the result does not depend on the
  external functions).  Reference mode does not affect the accelerator path:
  \<open>PlusEqOp::Expand\<close> hands accelerator operands to \<open>ExpandCuda\<close> without
  consulting the mode (\<open>ExpandCpu\<close>, which consults it, is entered for CPU
  operands only), and \<open>AssignOp::Expand\<close> on accelerator operands does the same
  with the mode on and off.
\<close>

theorem C6_reference_mode_cpu_only:
  "(DeviceType this_a = kCpuDevice \<longrightarrow>
      Expand X True HAVE_CUDA this_a this_b ops
        = Inr (ops @ [Op PlusEqRefOp [Dtype this_a] None [this_a, this_b]]))
   \<and> (DeviceType this_a \<noteq> kCpuDevice \<longrightarrow>
      Expand X ReferenceMode HAVE_CUDA this_a this_b ops = ExpandCuda X this_a this_b ops
      \<and> AssignOp_Expand X True HAVE_CUDA this_a this_b ops
          = AssignOp_Expand X False HAVE_CUDA this_a this_b ops)"
  by (simp add: Expand_def ExpandCpu_def AssignOp_Expand_def macro_defs)

text \<open>
  The theorem at int32 matrices on CPU (no fast path and no float type is
  needed in reference mode) and at float vectors on the accelerator.
\<close>

theorem C6_reference_mode_witness:
  "DeviceType (matrix_of 3 4 kInt32Dtype cpu 5) = kCpuDevice
   \<and> Expand plain_externals True False (matrix_of 3 4 kInt32Dtype cpu 5)
        (matrix_of 3 4 kInt32Dtype cpu 6) []
       = Inr [Op PlusEqRefOp [kInt32Dtype] None
                [matrix_of 3 4 kInt32Dtype cpu 5, matrix_of 3 4 kInt32Dtype cpu 6]]
   \<and> DeviceType (vector_of 5 kFloatDtype gpu 5) \<noteq> kCpuDevice
   \<and> Expand plain_externals True True (vector_of 5 kFloatDtype gpu 5)
        (vector_of 5 kFloatDtype gpu 6) []
       = ExpandCuda plain_externals (vector_of 5 kFloatDtype gpu 5) (vector_of 5 kFloatDtype gpu 6) []
   \<and> AssignOp_Expand plain_externals True True (vector_of 5 kFloatDtype gpu 5)
        (vector_of 5 kFloatDtype gpu 6) []
       = AssignOp_Expand plain_externals False True (vector_of 5 kFloatDtype gpu 5)
           (vector_of 5 kFloatDtype gpu 6) []"
proof -
  have c: "DeviceType (matrix_of 3 4 kInt32Dtype cpu 5) = kCpuDevice"
    by (simp add: example_fields)
  have g: "DeviceType (vector_of 5 kFloatDtype gpu 5) \<noteq> kCpuDevice"
    by (simp add: example_fields)
  show ?thesis
    using C6_reference_mode_cpu_only
            [of "matrix_of 3 4 kInt32Dtype cpu 5" plain_externals False
                "matrix_of 3 4 kInt32Dtype cpu 6" "[]" True]
          C6_reference_mode_cpu_only
            [of "vector_of 5 kFloatDtype gpu 5" plain_externals True
                "vector_of 5 kFloatDtype gpu 6" "[]" True]
          c g
    by (simp add: example_fields)
qed

section \<open>The product driver: the generic path\<close>

text \<open>
  Whatever the external functions compute: a request that passes the device and
  element type check and whose combined code is none of the six case labels
  comes back with no kernel invoked.
\<close>

lemma AddProduct_generic_path:
  assumes "\<not> code (pattern a) < code (pattern b)"
    and "CheckDeviceAndDtype X a b c"
    and "CombineCodes3 (code (pattern a)) (code (pattern b)) (code (pattern c))
           \<notin> set product_case_codes"
  shows "AddProduct X alpha beta a b c = Inr \<lparr>op_a = a, op_b = b, op_c = c, invoked = None\<rparr>"
proof -
  have "AddProduct X alpha beta a b c = AddProduct_dispatch X a b c"
    using assms(1) by (subst AddProduct.simps) simp
  also have "\<dots> = Inr \<lparr>op_a = a, op_b = b, op_c = c, invoked = None\<rparr>"
    using assms(2,3)
    by (simp add: AddProduct_dispatch_def product_case_codes_def Let_def split: prod.splits)
  finally show ?thesis .
qed

text \<open>
  C8 says that the generic path ends by invoking the reference ternary kernel.
  The code does not do that: after \<open>PadAxes\<close> and \<open>CompressPatterns\<close> the function
  ends, and no kernel has been invoked.  Here for matrix times matrix into
  matrix (code \<open>0x103103103\<close>).
\<close>

theorem C8_AddProduct_fallback_invokes_no_kernel:
  "CombineCodes3 (code (pattern (matrix_of 3 4 kFloatDtype cpu 5)))
      (code (pattern (matrix_of 4 2 kFloatDtype cpu 6)))
      (code (pattern (matrix_of 3 2 kFloatDtype cpu 7))) = 0x103103103
   \<and> AddProduct plain_externals 1 0 (matrix_of 3 4 kFloatDtype cpu 5)
       (matrix_of 4 2 kFloatDtype cpu 6) (matrix_of 3 2 kFloatDtype cpu 7)
     = Inr \<lparr>op_a = matrix_of 3 4 kFloatDtype cpu 5, op_b = matrix_of 4 2 kFloatDtype cpu 6,
             op_c = matrix_of 3 2 kFloatDtype cpu 7, invoked = None\<rparr>"
  by (subst AddProduct.simps)
     (simp add: AddProduct_dispatch_def CombineCodes3_def plain_externals_def PadAxes_to_rank_def
        pad_pattern_def matrix_of_def)

section \<open>What an expansion call may change\<close>



section \<open>A build without the accelerator backend\<close>

text \<open>
  C9 (as amended).  When \<open>HAVE_CUDA\<close> is not set, every accumulate request whose
  operands reside on the accelerator, and every assign request whose operands
  reside on one accelerator device, pass the compatibility assertion and have a
  reduced combined code that is one of the case labels of the assign switch,
  fails fatally with the configuration error; nothing is appended, and no CPU
  kernel is substituted.  The accumulate half is \<open>ExpandCuda\<close> as the spec
  describes it; the assign half is \<open>AssignOp::Expand\<close> with the kernel macro as
  the spec describes it.
\<close>

theorem C9_missing_backend_is_fatal:
  "(DeviceType this_a \<noteq> kCpuDevice \<longrightarrow>
      Expand (with_spec_accelerator X False) ReferenceMode False this_a this_b ops
        = Inl (NotCompiledForCuda, ops))
   \<and> (DeviceType this_a = kCuda \<and> Device this_a = Device this_b \<and> Compatible X this_a this_b
        \<and> normalize_operands X this_a this_b = (a, b, combined_code)
        \<and> combined_code \<in> set assign_case_codes \<longrightarrow>
      AssignOp_Expand X ReferenceMode False this_a this_b ops = Inl (NotCompiledForCuda, ops))"
proof (intro conjI impI)
  assume "DeviceType this_a \<noteq> kCpuDevice"
  then show "Expand (with_spec_accelerator X False) ReferenceMode False this_a this_b ops
        = Inl (NotCompiledForCuda, ops)"
    by (simp add: Expand_on_spec_accelerator ExpandCuda_from_spec_def)
next
  assume h: "DeviceType this_a = kCuda \<and> Device this_a = Device this_b
        \<and> Compatible X this_a this_b
        \<and> normalize_operands X this_a this_b = (a, b, combined_code)
        \<and> combined_code \<in> set assign_case_codes"
  then have n: "normalize_operands X this_a this_b = (a, b, combined_code)" by simp
  have dev: "DeviceType a = kCuda"
    using h normalize_operands_fields(3) [OF n] by simp
  have m: "SET_TO_TEMPLATED_OP_REAL_DEV False dtype (DeviceType a) name args
             = Inl NotCompiledForCuda" for dtype name args
    by (simp add: SET_TO_TEMPLATED_OP_REAL_DEV_def dev)
  have sw: "assign_switch X False a b combined_code ops = Inl (NotCompiledForCuda, ops)"
    using h by (auto simp: assign_switch_def assign_case_codes_def m constructed_def Let_def)
  show "AssignOp_Expand X ReferenceMode False this_a this_b ops = Inl (NotCompiledForCuda, ops)"
    using h by (simp add: AssignOp_Expand_def n sw)
qed

text \<open>
  The theorem at float vectors on the accelerator: accumulate, and assign
  (vector = vector, code \<open>0x101101\<close>).
\<close>

theorem C9_missing_backend_witness:
  "DeviceType (vector_of 5 kFloatDtype gpu 5) \<noteq> kCpuDevice
   \<and> Expand (with_spec_accelerator plain_externals False) False False
        (vector_of 5 kFloatDtype gpu 5) (vector_of 5 kFloatDtype gpu 6) []
       = Inl (NotCompiledForCuda, [])
   \<and> DeviceType (vector_of 5 kFloatDtype gpu 5) = kCuda
   \<and> Device (vector_of 5 kFloatDtype gpu 5) = Device (vector_of 5 kFloatDtype gpu 6)
   \<and> Compatible plain_externals (vector_of 5 kFloatDtype gpu 5) (vector_of 5 kFloatDtype gpu 6)
   \<and> normalize_operands plain_externals (vector_of 5 kFloatDtype gpu 5)
        (vector_of 5 kFloatDtype gpu 6)
       = (vector_of 5 kFloatDtype gpu 5, vector_of 5 kFloatDtype gpu 6, 0x101101)
   \<and> 0x101101 \<in> set assign_case_codes
   \<and> AssignOp_Expand plain_externals False False (vector_of 5 kFloatDtype gpu 5)
        (vector_of 5 kFloatDtype gpu 6) []
       = Inl (NotCompiledForCuda, [])"
proof -
  have g: "DeviceType (vector_of 5 kFloatDtype gpu 5) = kCuda"
    by (simp add: example_fields)
  have d: "Device (vector_of 5 kFloatDtype gpu 5) = Device (vector_of 5 kFloatDtype gpu 6)"
    by (simp add: example_fields)
  have c: "Compatible plain_externals (vector_of 5 kFloatDtype gpu 5)
             (vector_of 5 kFloatDtype gpu 6)"
    by (simp add: plain_externals_def example_fields)
  have n: "normalize_operands plain_externals (vector_of 5 kFloatDtype gpu 5)
             (vector_of 5 kFloatDtype gpu 6)
           = (vector_of 5 kFloatDtype gpu 5, vector_of 5 kFloatDtype gpu 6, 0x101101)"
    by (simp add: normalize_operands_plain CombineCodes_def example_fields)
  have l: "(0x101101 :: int) \<in> set assign_case_codes"
    by (simp add: assign_case_codes_def)
  show ?thesis
    using C9_missing_backend_is_fatal
            [of "vector_of 5 kFloatDtype gpu 5" plain_externals False
                "vector_of 5 kFloatDtype gpu 6" "[]" "vector_of 5 kFloatDtype gpu 5"
                "vector_of 5 kFloatDtype gpu 6" "0x101101"]
          g d c n l
    by simp
qed

text \<open>
  C9 as stated, for every expansion request, fails.  Assigning a matrix to a
  matrix, both on the accelerator, with rows 8 elements apart so that the
  patterns cannot be reduced further (code \<open>0x103103\<close>): the switch of
  \<open>AssignOp::Expand\<close> has no case for the code, and the request fails with the
  ``Unhandled code'' error of \<open>default:\<close>, not with the configuration error,
  before any kernel is asked for.
\<close>

theorem C9_assign_counterexample:
  "DeviceType (strided_matrix_of 3 4 8 kFloatDtype gpu 5) = kCuda
   \<and> DeviceType (strided_matrix_of 3 4 8 kFloatDtype gpu 6) = kCuda
   \<and> AssignOp_Expand plain_externals False False (strided_matrix_of 3 4 8 kFloatDtype gpu 5)
        (strided_matrix_of 3 4 8 kFloatDtype gpu 6) []
       = Inl (UnhandledCode 0x103103, [])
   \<and> UnhandledCode 0x103103 \<noteq> NotCompiledForCuda"
proof -
  have n: "normalize_operands plain_externals (strided_matrix_of 3 4 8 kFloatDtype gpu 5)
             (strided_matrix_of 3 4 8 kFloatDtype gpu 6)
           = (strided_matrix_of 3 4 8 kFloatDtype gpu 5,
              strided_matrix_of 3 4 8 kFloatDtype gpu 6, 0x103103)"
    by (simp add: normalize_operands_plain CombineCodes_def strided_matrix_fields)
  have c: "Compatible plain_externals (strided_matrix_of 3 4 8 kFloatDtype gpu 5)
             (strided_matrix_of 3 4 8 kFloatDtype gpu 6)"
    by (simp add: plain_externals_def strided_matrix_fields)
  have s: "assign_switch plain_externals False (strided_matrix_of 3 4 8 kFloatDtype gpu 5)
             (strided_matrix_of 3 4 8 kFloatDtype gpu 6) 0x103103 []
           = Inl (UnhandledCode 0x103103, [])"
    by (simp add: assign_switch_def)
  show ?thesis
    by (simp add: AssignOp_Expand_def n c s strided_matrix_fields example_fields)
qed

section \<open>The accumulate driver: element types\<close>




end
